theory Spec2Isabelle
  imports Complex_Main
begin

section \<open>Conventions of the embedding\<close>

text \<open>
  The program is Python. Its \<^verbatim>\<open>float\<close> values are embedded as \<^typ>\<open>real\<close> and its
  \<^verbatim>\<open>complex\<close> values as \<^typ>\<open>complex\<close>: every arithmetic operation is the exact one,
  rounding, overflow and NaN of IEEE double precision are not part of the model.
  Python's unbounded \<^verbatim>\<open>int\<close> is \<^typ>\<open>int\<close>. A raised exception is a value of
  type \<open>py_error\<close>, returned on the left of a sum.

  The theorems below are therefore kept to what does not rest on the algebra of the
  reals: which branch a handler takes, which fields it writes, values that are copied
  rather than computed, results that are restated by the very operations the code
  evaluates, and instances whose arithmetic is exact in double precision as well.
  Identities and strict inequalities that hold for reals only (a centre kept by a zoom,
  an extent kept by a click, \<open>xmin < xmax\<close> after any number of zooms) are not stated:
  doubles do not satisfy them.
\<close>

datatype py_error = ZeroDivisionError | ValueError

section \<open>Escape-time kernel (service/mandelbrotops.py)\<close>

text \<open>
  \<^verbatim>\<open>
  def mandelbrot(c, maxiter, horizon=2):
      z = c
      for n in range(maxiter):
          if abs(z) > horizon:
              return n
          z = z * z + c
      return 0
  \<close>
  The \<^verbatim>\<open>for\<close> loop is the recursion \<open>mandelbrot_loop\<close> on the loop counter \<open>n\<close> and the
  current \<open>z\<close>; \<^verbatim>\<open>range(maxiter)\<close> is empty when \<open>maxiter \<le> 0\<close>.
\<close>

function mandelbrot_loop :: "complex \<Rightarrow> int \<Rightarrow> real \<Rightarrow> int \<Rightarrow> complex \<Rightarrow> int" where
  "mandelbrot_loop c maxiter horizon n z =
     (if n < maxiter then
        (if cmod z > horizon then n
         else mandelbrot_loop c maxiter horizon (n + 1) (z * z + c))
      else 0)"
  by pat_completeness auto
termination
  by (relation "measure (\<lambda>(c, maxiter, horizon, n, z). nat (maxiter - n))") auto

definition mandelbrot :: "complex \<Rightarrow> int \<Rightarrow> real \<Rightarrow> int" where
  "mandelbrot c maxiter horizon = mandelbrot_loop c maxiter horizon 0 c"

text \<open>
  The orbit the specification speaks about: \<open>z\<^sub>0 = c\<close> and \<open>z\<^sub>k\<^sub>+\<^sub>1 = z\<^sub>k\<^sup>2 + c\<close>.
  It is the yardstick of the kernel's theorems, not part of the code.
\<close>

fun orbit :: "complex \<Rightarrow> nat \<Rightarrow> complex" where
  "orbit c 0 = c"
| "orbit c (Suc k) = orbit c k * orbit c k + c"


section \<open>Region sampler (service/mandelbrotops.py)\<close>

text \<open>
  \<^verbatim>\<open>np.linspace(start, stop, num)\<close> belongs to numpy, not to this repository. Its documented
  behaviour (endpoint included by default) is: a negative \<open>num\<close> raises \<^verbatim>\<open>ValueError\<close>;
  otherwise, with \<open>dv = num - 1\<close>, sample \<open>i\<close> is \<open>start + i * ((stop - start) / dv)\<close> when
  \<open>dv > 0\<close> and \<open>start + i * (stop - start)\<close> when it is not, and for \<open>num > 1\<close> the last
  sample is overwritten with \<open>stop\<close>.
\<close>

definition linspace :: "real \<Rightarrow> real \<Rightarrow> int \<Rightarrow> py_error + real list" where
  "linspace start stop num =
     (if num < 0 then Inl ValueError
      else
        let dv = num - 1;
            delta = stop - start;
            y = map (\<lambda>i. if 0 < dv then start + real i * (delta / real_of_int dv)
                         else start + real i * delta) [0..<nat num]
        in Inr (if 1 < num then y[nat num - 1 := stop] else y))"

text \<open>
  \<^verbatim>\<open>
  def mandelbrot_set(xmin, xmax, ymin, ymax, width, height, maxiter):
      r1 = np.linspace(xmin, xmax, width)
      r2 = np.linspace(ymin, ymax, height)
      n3 = np.empty((width, height))
      for i in range(width):
          for j in range(height):
              n3[i, j] = mandelbrot(r1[i] + 1j * r2[j], maxiter)
      return n3
  \<close>
  The grid \<open>n3\<close> is a list of \<open>width\<close> rows of \<open>height\<close> floats; the two loops fill every
  cell, so the grid is the nested map over the two index ranges.
\<close>

definition mandelbrot_set ::
  "real \<Rightarrow> real \<Rightarrow> real \<Rightarrow> real \<Rightarrow> int \<Rightarrow> int \<Rightarrow> int \<Rightarrow> py_error + real list list" where
  "mandelbrot_set xmin xmax ymin ymax width height maxiter =
     (case linspace xmin xmax width of
        Inl e \<Rightarrow> Inl e
      | Inr r1 \<Rightarrow>
          (case linspace ymin ymax height of
             Inl e \<Rightarrow> Inl e
           | Inr r2 \<Rightarrow>
               Inr (map (\<lambda>i. map (\<lambda>j. real_of_int
                            (mandelbrot (complex_of_real (r1 ! i) + \<i> * complex_of_real (r2 ! j))
                               maxiter 2))
                          [0..<nat height])
                      [0..<nat width])))"

definition mandelbrot_set_for_image ::
  "real \<Rightarrow> real \<Rightarrow> real \<Rightarrow> real \<Rightarrow> int \<Rightarrow> int \<Rightarrow> int \<Rightarrow> int \<Rightarrow> py_error + real list list" where
  "mandelbrot_set_for_image xmin xmax ymin ymax width height maxiter dpi =
     (let img_width = dpi * width;
          img_height = dpi * height
      in mandelbrot_set xmin xmax ymin ymax img_width img_height maxiter)"

section \<open>Worker (threads/guiworker.py)\<close>

text \<open>
  A \<^verbatim>\<open>GUIWorker\<close> holds the snapshot of the region it was created with. Starting it is
  recorded in the controller's state; its \<^verbatim>\<open>run\<close> computes the grid that the completion
  callback receives. Threads are not modelled: the completion is an event of its own.
\<close>

record guiworker =
  worker_xmin :: real
  worker_xmax :: real
  worker_ymin :: real
  worker_ymax :: real
  worker_width :: int
  worker_height :: int
  worker_maxiter :: int
  worker_dpi :: int

definition guiworker_run :: "guiworker \<Rightarrow> py_error + real list list" where
  "guiworker_run w =
     mandelbrot_set_for_image (worker_xmin w) (worker_xmax w) (worker_ymin w) (worker_ymax w)
       (worker_width w) (worker_height w) (worker_maxiter w) (worker_dpi w)"

section \<open>Viewport controller (gui/gui.py)\<close>

text \<open>
  The fields of \<^verbatim>\<open>MandelbrotGUI\<close> that the navigation code reads or writes; \<open>self_x\<close> is
  \<^verbatim>\<open>self.x\<close>. \<open>self_started\<close> lists the workers started by \<^verbatim>\<open>_calc_mandelbrot\<close>, oldest
  first. The widgets, the colour map and the status text are left out.
\<close>

record gui =
  self_xmin :: real
  self_xmax :: real
  self_ymin :: real
  self_ymax :: real
  self_width :: int
  self_height :: int
  self_maxiter :: int
  self_dpi :: int
  self_img_width :: int
  self_img_height :: int
  self_processing :: bool
  self_curr_zoomlvl :: int
  self_zoomfactor_in :: real
  self_zoomfactor_out :: real
  self_currdata :: "real \<times> real \<times> real \<times> real"
  self_cd_width :: real
  self_cd_height :: real
  self_mset :: "real list list option"
  self_started :: "guiworker list"

text \<open>Indexing the 4-tuple \<^verbatim>\<open>currdata = (xmin, ymin, xmax, ymax)\<close>.\<close>

fun at0 :: "'a \<times> 'a \<times> 'a \<times> 'a \<Rightarrow> 'a" where "at0 (a, b, c, d) = a"
fun at1 :: "'a \<times> 'a \<times> 'a \<times> 'a \<Rightarrow> 'a" where "at1 (a, b, c, d) = b"
fun at2 :: "'a \<times> 'a \<times> 'a \<times> 'a \<Rightarrow> 'a" where "at2 (a, b, c, d) = c"
fun at3 :: "'a \<times> 'a \<times> 'a \<times> 'a \<Rightarrow> 'a" where "at3 (a, b, c, d) = d"

definition calc_cd_wh :: "gui \<Rightarrow> gui" where
  "calc_cd_wh s =
     s\<lparr>self_cd_width := \<bar>at0 (self_currdata s) - at2 (self_currdata s)\<bar>,
       self_cd_height := \<bar>at1 (self_currdata s) - at3 (self_currdata s)\<bar>\<rparr>"

definition set_currdata_d :: "gui \<Rightarrow> real \<times> real \<times> real \<times> real \<Rightarrow> gui" where
  "set_currdata_d s data = calc_cd_wh (s\<lparr>self_currdata := data\<rparr>)"

definition set_currdata :: "gui \<Rightarrow> real \<Rightarrow> real \<Rightarrow> real \<Rightarrow> real \<Rightarrow> gui" where
  "set_currdata s xmin ymin xmax ymax = calc_cd_wh (set_currdata_d s (xmin, ymin, xmax, ymax))"

text \<open>
  \<^verbatim>\<open>__init__\<close>: \<^verbatim>\<open>self.zoomfactor_out = 1 / self.zoomfactor_in\<close> raises
  \<^verbatim>\<open>ZeroDivisionError\<close> for a zero zoom factor, before the current data are set.
  The attributes \<^verbatim>\<open>currdata\<close>, \<^verbatim>\<open>cd_width\<close> and \<^verbatim>\<open>cd_height\<close> do not exist before
  \<^verbatim>\<open>_set_currdata\<close> creates them; the record holds zeros there until then.
\<close>

definition MandelbrotGUI_init ::
  "real \<Rightarrow> real \<Rightarrow> real \<Rightarrow> real \<Rightarrow> int \<Rightarrow> int \<Rightarrow> int \<Rightarrow> int \<Rightarrow> real \<Rightarrow> py_error + gui" where
  "MandelbrotGUI_init xmin xmax ymin ymax width height maxiter dpi zoomfactor =
     (if zoomfactor = 0 then Inl ZeroDivisionError
      else Inr (set_currdata
        \<lparr>self_xmin = xmin, self_xmax = xmax, self_ymin = ymin, self_ymax = ymax,
         self_width = width, self_height = height, self_maxiter = maxiter, self_dpi = dpi,
         self_img_width = dpi * width, self_img_height = dpi * height,
         self_processing = False, self_curr_zoomlvl = 0,
         self_zoomfactor_in = zoomfactor, self_zoomfactor_out = 1 / zoomfactor,
         self_currdata = (0, 0, 0, 0), self_cd_width = 0, self_cd_height = 0,
         self_mset = None, self_started = []\<rparr>
        xmin ymin xmax ymax))"

text \<open>
  \<^verbatim>\<open>_calc_mandelbrot_callback(mset, starttime, endtime)\<close>: stores the grid, redraws
  (not modelled) and clears \<^verbatim>\<open>processing\<close>. The two timestamps only feed the status text.
\<close>

definition calc_mandelbrot_callback :: "gui \<Rightarrow> real list list \<Rightarrow> real \<Rightarrow> real \<Rightarrow> gui" where
  "calc_mandelbrot_callback s mset starttime endtime =
     s\<lparr>self_mset := Some mset, self_processing := False\<rparr>"

text \<open>\<^verbatim>\<open>_calc_mandelbrot\<close>: creates a worker from the current data and starts it.\<close>

definition calc_mandelbrot :: "gui \<Rightarrow> gui" where
  "calc_mandelbrot s =
     (let guiworker = \<lparr>worker_xmin = at0 (self_currdata s), worker_xmax = at2 (self_currdata s),
                        worker_ymin = at1 (self_currdata s), worker_ymax = at3 (self_currdata s),
                        worker_width = self_width s, worker_height = self_height s,
                        worker_maxiter = self_maxiter s, worker_dpi = self_dpi s\<rparr>
      in s\<lparr>self_started := self_started s @ [guiworker]\<rparr>)"

text \<open>
  \<^verbatim>\<open>
  x1, y1, w1, h1 = (0, 0, self.width * self.dpi, self.height * self.dpi)
  x2, y2, w2, h2 = (self.currdata[0], self.currdata[1], self.cd_width, self.cd_height)
  x_new = ((coords[0] - x1) / w1) * w2 + x2
  y_new = ((coords[1] - y1) / h1) * h2 + y2
  \<close>
  Either division raises \<^verbatim>\<open>ZeroDivisionError\<close> when its divisor is zero.
\<close>

definition transform_coords :: "gui \<Rightarrow> real \<times> real \<Rightarrow> py_error + real \<times> real" where
  "transform_coords s coords =
     (let x1 = (0::int); y1 = (0::int);
          w1 = self_width s * self_dpi s; h1 = self_height s * self_dpi s;
          x2 = at0 (self_currdata s); y2 = at1 (self_currdata s);
          w2 = self_cd_width s; h2 = self_cd_height s
      in if w1 = 0 then Inl ZeroDivisionError
         else let x_new = ((fst coords - real_of_int x1) / real_of_int w1) * w2 + x2
           in if h1 = 0 then Inl ZeroDivisionError
              else let y_new = ((snd coords - real_of_int y1) / real_of_int h1) * h2 + y2
                in Inr (x_new, y_new))"

definition calc_new_coordinates_around :: "gui \<Rightarrow> real \<times> real \<Rightarrow> real \<times> real \<times> real \<times> real" where
  "calc_new_coordinates_around s coords =
     (let xmin_new = fst coords - (self_cd_width s / 2);
          ymin_new = snd coords - (self_cd_height s / 2);
          xmax_new = xmin_new + self_cd_width s;
          ymax_new = ymin_new + self_cd_height s
      in (xmin_new, ymin_new, xmax_new, ymax_new))"

definition apply_zoomin :: "gui \<Rightarrow> gui" where
  "apply_zoomin s =
     (let mid = (at0 (self_currdata s) + (self_cd_width s / 2),
                 at1 (self_currdata s) + (self_cd_height s / 2));
          wval = self_cd_width s / 2 * self_zoomfactor_in s;
          hval = self_cd_height s / 2 * self_zoomfactor_in s
      in set_currdata s (fst mid - wval) (snd mid - hval) (fst mid + wval) (snd mid + hval))"

definition apply_zoomout :: "gui \<Rightarrow> gui" where
  "apply_zoomout s =
     (let mid = (at0 (self_currdata s) + (self_cd_width s / 2),
                 at1 (self_currdata s) + (self_cd_height s / 2));
          wval = self_cd_width s / 2 * self_zoomfactor_out s;
          hval = self_cd_height s / 2 * self_zoomfactor_out s
      in set_currdata s (fst mid - wval) (snd mid - hval) (fst mid + wval) (snd mid + hval))"

text \<open>
  A matplotlib event as the handlers read it: \<^verbatim>\<open>event.button\<close> is an integer for a mouse
  button and a string for a scroll direction, \<^verbatim>\<open>event.inaxes is not None\<close> is a boolean.
\<close>

datatype button = IntButton int | StrButton string

record event =
  event_button :: button
  event_key :: string
  event_inaxes :: bool
  event_xdata :: real
  event_ydata :: real

definition button_mouse1_released :: "gui \<Rightarrow> event \<Rightarrow> py_error + gui" where
  "button_mouse1_released s event =
     (if \<not> self_processing s then
        (if event_inaxes event then
           (let s1 = s\<lparr>self_processing := True\<rparr>
            in case transform_coords s1 (event_xdata event, event_ydata event) of
                 Inl e \<Rightarrow> Inl e
               | Inr trans_coords \<Rightarrow>
                   (let new_coords = calc_new_coordinates_around s1 trans_coords
                    in Inr (calc_mandelbrot (set_currdata_d s1 new_coords))))
         else Inr s)
      else Inr s)"

definition button_mouse3_released :: "gui \<Rightarrow> event \<Rightarrow> gui" where
  "button_mouse3_released s event =
     (if \<not> self_processing s then
        (let s1 = s\<lparr>self_processing := True\<rparr>;
             s2 = set_currdata s1 (self_xmin s1) (self_ymin s1) (self_xmax s1) (self_ymax s1);
             s3 = s2\<lparr>self_curr_zoomlvl := 0\<rparr>
         in calc_mandelbrot s3)
      else s)"

definition button_mousescrollup :: "gui \<Rightarrow> event \<Rightarrow> gui" where
  "button_mousescrollup s event =
     (if \<not> self_processing s then
        (let s1 = s\<lparr>self_processing := True\<rparr>;
             s2 = apply_zoomout s1;
             s3 = s2\<lparr>self_curr_zoomlvl := self_curr_zoomlvl s2 - 1\<rparr>
         in calc_mandelbrot s3)
      else s)"

definition button_mousescrolldown :: "gui \<Rightarrow> event \<Rightarrow> gui" where
  "button_mousescrolldown s event =
     (if \<not> self_processing s then
        (let s1 = s\<lparr>self_processing := True\<rparr>;
             s2 = apply_zoomin s1;
             s3 = s2\<lparr>self_curr_zoomlvl := self_curr_zoomlvl s2 + 1\<rparr>
         in calc_mandelbrot s3)
      else s)"

definition button_released :: "gui \<Rightarrow> event \<Rightarrow> py_error + gui" where
  "button_released s event =
     (if event_button event = IntButton 1 then button_mouse1_released s event
      else if event_button event = IntButton 3 then Inr (button_mouse3_released s event)
      else if event_button event = StrButton ''up'' then Inr (button_mousescrollup s event)
      else if event_button event = StrButton ''down'' then Inr (button_mousescrolldown s event)
      else Inr s)"

definition key_released :: "gui \<Rightarrow> event \<Rightarrow> gui" where
  "key_released s event =
     (if event_key event = ''+'' then button_mousescrolldown s event
      else if event_key event = ''-'' then button_mousescrollup s event
      else s)"

subsection \<open>The event loop\<close>

text \<open>
  \<^verbatim>\<open>_create_canvasbinding\<close> connects \<^verbatim>\<open>button_release_event\<close> and \<^verbatim>\<open>scroll_event\<close> to
  \<^verbatim>\<open>_button_released\<close> and \<^verbatim>\<open>key_release_event\<close> to \<^verbatim>\<open>_key_released\<close>; a finished
  worker calls \<^verbatim>\<open>_calc_mandelbrot_callback\<close>. A run of the GUI is a list of such
  occurrences, handled in order; an exception leaves the run.
\<close>

datatype occurrence =
    ButtonReleaseEvent event
  | ScrollEvent event
  | KeyReleaseEvent event
  | WorkerDone "real list list" real real

fun handle :: "gui \<Rightarrow> occurrence \<Rightarrow> py_error + gui" where
  "handle s (ButtonReleaseEvent e) = button_released s e"
| "handle s (ScrollEvent e) = button_released s e"
| "handle s (KeyReleaseEvent e) = Inr (key_released s e)"
| "handle s (WorkerDone mset starttime endtime) =
     Inr (calc_mandelbrot_callback s mset starttime endtime)"

fun run :: "gui \<Rightarrow> occurrence list \<Rightarrow> py_error + gui" where
  "run s [] = Inr s"
| "run s (x # xs) = (case handle s x of Inl e \<Rightarrow> Inl e | Inr s' \<Rightarrow> run s' xs)"

subsection \<open>Sample inputs\<close>

text \<open>The four navigation requests of the specification, as the events that trigger them.\<close>

definition click :: "int \<Rightarrow> real \<Rightarrow> real \<Rightarrow> event" where
  "click b x y =
     \<lparr>event_button = IntButton b, event_key = [], event_inaxes = True,
      event_xdata = x, event_ydata = y\<rparr>"

definition scroll :: "string \<Rightarrow> event" where
  "scroll direction =
     \<lparr>event_button = StrButton direction, event_key = [], event_inaxes = True,
      event_xdata = 0, event_ydata = 0\<rparr>"

text \<open>The controller that \<^verbatim>\<open>Main.py\<close> constructs from its \<^verbatim>\<open>SETTINGS\<close>.\<close>

definition main_gui :: "py_error + gui" where
  "main_gui = MandelbrotGUI_init (-2.0) 0.5 (-1.25) 1.25 10 10 128 75 0.7"

text \<open>
  Two states agree on every field that only the constructor writes.
\<close>

definition same_config :: "gui \<Rightarrow> gui \<Rightarrow> bool" where
  "same_config s s' =
     (self_xmin s' = self_xmin s \<and> self_xmax s' = self_xmax s
      \<and> self_ymin s' = self_ymin s \<and> self_ymax s' = self_ymax s
      \<and> self_width s' = self_width s \<and> self_height s' = self_height s
      \<and> self_maxiter s' = self_maxiter s \<and> self_dpi s' = self_dpi s
      \<and> self_img_width s' = self_img_width s \<and> self_img_height s' = self_img_height s
      \<and> self_zoomfactor_in s' = self_zoomfactor_in s
      \<and> self_zoomfactor_out s' = self_zoomfactor_out s)"

section \<open>Properties of the kernel\<close>

subsection \<open>The loop against the orbit\<close>

declare mandelbrot_loop.simps [simp del]

lemma mandelbrot_loop_stop:
  "n < maxiter \<Longrightarrow> cmod z > horizon \<Longrightarrow> mandelbrot_loop c maxiter horizon n z = n"
  by (subst mandelbrot_loop.simps) simp

lemma mandelbrot_loop_step:
  "n < maxiter \<Longrightarrow> \<not> cmod z > horizon \<Longrightarrow>
   mandelbrot_loop c maxiter horizon n z = mandelbrot_loop c maxiter horizon (n + 1) (z * z + c)"
  by (subst mandelbrot_loop.simps) simp

lemma mandelbrot_loop_done:
  "\<not> n < maxiter \<Longrightarrow> mandelbrot_loop c maxiter horizon n z = 0"
  by (subst mandelbrot_loop.simps) simp

lemma mandelbrot_loop_escape:
  "k + d = j \<Longrightarrow> int j < maxiter \<Longrightarrow> cmod (orbit c j) > horizon \<Longrightarrow>
   (\<forall>i. k \<le> i \<and> i < j \<longrightarrow> \<not> cmod (orbit c i) > horizon) \<Longrightarrow>
   mandelbrot_loop c maxiter horizon (int k) (orbit c k) = int j"
proof (induction d arbitrary: k)
  case 0
  then show ?case by (simp add: mandelbrot_loop_stop)
next
  case (Suc d)
  from Suc.prems have kj: "k < j" and stay: "\<not> cmod (orbit c k) > horizon"
    by auto
  from kj Suc.prems(2) have "int k < maxiter" by simp
  then have "mandelbrot_loop c maxiter horizon (int k) (orbit c k)
             = mandelbrot_loop c maxiter horizon (int (Suc k)) (orbit c (Suc k))"
    using stay by (simp add: mandelbrot_loop_step add.commute)
  also have "\<dots> = int j"
    using Suc.prems by (intro Suc.IH) auto
  finally show ?case .
qed

lemma mandelbrot_loop_bounded:
  "nat (maxiter - int k) = d \<Longrightarrow>
   (\<forall>i. k \<le> i \<and> int i < maxiter \<longrightarrow> \<not> cmod (orbit c i) > horizon) \<Longrightarrow>
   mandelbrot_loop c maxiter horizon (int k) (orbit c k) = 0"
proof (induction d arbitrary: k)
  case 0
  then have "\<not> int k < maxiter" by simp
  then show ?case by (rule mandelbrot_loop_done)
next
  case (Suc d)
  then have lt: "int k < maxiter" by simp
  with Suc.prems have stay: "\<not> cmod (orbit c k) > horizon" by auto
  have "mandelbrot_loop c maxiter horizon (int k) (orbit c k)
        = mandelbrot_loop c maxiter horizon (int (Suc k)) (orbit c (Suc k))"
    using lt stay by (simp add: mandelbrot_loop_step add.commute)
  also have "\<dots> = 0"
    using Suc.prems by (intro Suc.IH) auto
  finally show ?case .
qed

lemma mandelbrot_loop_range:
  "0 \<le> n \<Longrightarrow> n < maxiter \<Longrightarrow>
   0 \<le> mandelbrot_loop c maxiter horizon n z \<and> mandelbrot_loop c maxiter horizon n z < maxiter"
proof (induction c maxiter horizon n z rule: mandelbrot_loop.induct)
  case (1 c maxiter horizon n z)
  show ?case
  proof (cases "cmod z > horizon")
    case True
    with "1.prems" show ?thesis by (simp add: mandelbrot_loop_stop)
  next
    case False
    note stay = this
    show ?thesis
    proof (cases "n + 1 < maxiter")
      case True
      with "1.IH" [OF "1.prems"(2) stay] "1.prems" stay show ?thesis
        by (simp add: mandelbrot_loop_step)
    next
      case False
      with "1.prems" stay show ?thesis
        by (simp add: mandelbrot_loop_step mandelbrot_loop_done)
    qed
  qed
qed

lemma orbit_zero: "orbit 0 k = 0"
  by (induction k) simp_all

lemma mandelbrot_escape:
  "int n < maxiter \<Longrightarrow> cmod (orbit c n) > horizon \<Longrightarrow>
   (\<forall>k<n. \<not> cmod (orbit c k) > horizon) \<Longrightarrow> mandelbrot c maxiter horizon = int n"
  unfolding mandelbrot_def
  using mandelbrot_loop_escape [where k = 0 and d = n and j = n and maxiter = maxiter and c = c and horizon = horizon] by simp

lemma mandelbrot_bounded:
  "(\<forall>k. int k < maxiter \<longrightarrow> \<not> cmod (orbit c k) > horizon) \<Longrightarrow> mandelbrot c maxiter horizon = 0"
  unfolding mandelbrot_def
  using mandelbrot_loop_bounded [where k = 0 and d = "nat maxiter" and maxiter = maxiter and c = c and horizon = horizon] by simp

lemma mandelbrot_range:
  "1 \<le> maxiter \<Longrightarrow> 0 \<le> mandelbrot c maxiter horizon \<and> mandelbrot c maxiter horizon \<le> maxiter - 1"
  unfolding mandelbrot_def
  using mandelbrot_loop_range [where n = 0 and maxiter = maxiter and c = c and horizon = horizon and z = c] by simp

lemma mandelbrot_no_iterations:
  "maxiter \<le> 0 \<Longrightarrow> mandelbrot c maxiter horizon = 0"
  unfolding mandelbrot_def by (simp add: mandelbrot_loop_done)

lemma mandelbrot_origin_50: "mandelbrot 0 50 2 = 0"
  by (rule mandelbrot_bounded) (simp add: orbit_zero)

lemma mandelbrot_two_50: "mandelbrot 2 50 2 = 1"
  using mandelbrot_escape [where n = 1 and maxiter = 50 and c = 2 and horizon = 2] by simp

section \<open>Properties of the sampler\<close>

lemma linspace_length:
  "0 \<le> num \<Longrightarrow> \<exists>xs. linspace a b num = Inr xs \<and> length xs = nat num"
  by (simp add: linspace_def Let_def)

lemma linspace_single: "linspace a b 1 = Inr [a]"
  by (simp add: linspace_def Let_def)

lemma linspace_nth:
  assumes "2 \<le> num" "linspace a b num = Inr xs" "i < nat num"
  shows "xs ! i = a + real i * ((b - a) / real_of_int (num - 1))"
proof (cases "i = nat num - 1")
  case True
  from assms(1) have "real i = real_of_int (num - 1)" using True by simp
  moreover from assms(1) have "real_of_int (num - 1) \<noteq> 0" by simp
  ultimately have "a + real i * ((b - a) / real_of_int (num - 1)) = b" by simp
  moreover from assms True have "xs ! i = b"
    by (auto simp: linspace_def Let_def)
  ultimately show ?thesis by simp
next
  case False
  with assms show ?thesis
    by (auto simp: linspace_def Let_def)
qed

lemma linspace_ends:
  assumes "2 \<le> num" "linspace a b num = Inr xs"
  shows "xs ! 0 = a \<and> xs ! (nat num - 1) = b"
proof -
  from assms have "xs ! 0 = a" using linspace_nth [OF assms, of 0] by simp
  moreover from assms have "xs ! (nat num - 1) = b"
    by (auto simp: linspace_def Let_def)
  ultimately show ?thesis by simp
qed

lemma mandelbrot_set_grid:
  assumes "linspace x0 x1 W = Inr r1" "linspace y0 y1 H = Inr r2"
  shows "mandelbrot_set x0 x1 y0 y1 W H maxiter =
           Inr (map (\<lambda>i. map (\<lambda>j. real_of_int
                  (mandelbrot (complex_of_real (r1 ! i) + \<i> * complex_of_real (r2 ! j)) maxiter 2))
                  [0..<nat H]) [0..<nat W])"
  using assms by (simp add: mandelbrot_set_def)

lemma complex_parts: "complex_of_real x + \<i> * complex_of_real y = Complex x y"
  by (simp add: complex_eq_iff)

lemma mandelbrot_cell_range:
  "0 \<le> maxiter \<Longrightarrow> 0 \<le> mandelbrot c maxiter h \<and> mandelbrot c maxiter h \<le> maxiter"
  using mandelbrot_range [where maxiter = maxiter and c = c and horizon = h]
    mandelbrot_no_iterations [where maxiter = maxiter and c = c and horizon = h]
  by (cases "1 \<le> maxiter") auto

section \<open>Properties of the controller\<close>

lemmas setter_defs = calc_cd_wh_def set_currdata_d_def set_currdata_def calc_mandelbrot_def
  calc_mandelbrot_callback_def
lemmas handler_defs = button_mouse1_released_def button_mouse3_released_def
  button_mousescrollup_def button_mousescrolldown_def button_released_def key_released_def
  apply_zoomin_def apply_zoomout_def calc_new_coordinates_around_def

lemma transform_coords_processing [simp]:
  "transform_coords (s\<lparr>self_processing := b\<rparr>) p = transform_coords s p"
  by (simp add: transform_coords_def)

subsection \<open>Configuration is never written\<close>

lemma same_config_refl [simp]: "same_config s s"
  by (simp add: same_config_def)

lemma same_config_trans: "same_config s s' \<Longrightarrow> same_config s' s'' \<Longrightarrow> same_config s s''"
  by (simp add: same_config_def)

lemma mouse1_config: "button_mouse1_released s e = Inr s' \<Longrightarrow> same_config s s'"
  by (auto simp: button_mouse1_released_def same_config_def setter_defs Let_def
      split: if_splits sum.splits)

lemma mouse3_config: "same_config s (button_mouse3_released s e)"
  by (simp add: button_mouse3_released_def same_config_def setter_defs Let_def)

lemma scrollup_config: "same_config s (button_mousescrollup s e)"
  by (simp add: button_mousescrollup_def apply_zoomout_def same_config_def setter_defs Let_def)

lemma scrolldown_config: "same_config s (button_mousescrolldown s e)"
  by (simp add: button_mousescrolldown_def apply_zoomin_def same_config_def setter_defs Let_def)

lemma handle_config: "handle s x = Inr s' \<Longrightarrow> same_config s s'"
proof (cases x)
  case (ButtonReleaseEvent e)
  assume "handle s x = Inr s'"
  with ButtonReleaseEvent show ?thesis
    using mouse1_config [of s e s'] mouse3_config [of s e] scrollup_config [of s e]
      scrolldown_config [of s e]
    by (auto simp: button_released_def split: if_splits)
next
  case (ScrollEvent e)
  assume "handle s x = Inr s'"
  with ScrollEvent show ?thesis
    using mouse1_config [of s e s'] mouse3_config [of s e] scrollup_config [of s e]
      scrolldown_config [of s e]
    by (auto simp: button_released_def split: if_splits)
next
  case (KeyReleaseEvent e)
  assume "handle s x = Inr s'"
  with KeyReleaseEvent show ?thesis
    using scrollup_config [of s e] scrolldown_config [of s e]
    by (auto simp: key_released_def split: if_splits)
next
  case (WorkerDone mset t0 t1)
  assume "handle s x = Inr s'"
  with WorkerDone show ?thesis
    by (auto simp: same_config_def calc_mandelbrot_callback_def)
qed

lemma run_config: "run s xs = Inr s' \<Longrightarrow> same_config s s'"
proof (induction xs arbitrary: s)
  case Nil
  then show ?case by simp
next
  case (Cons x xs)
  then obtain s1 where h: "handle s x = Inr s1" and r: "run s1 xs = Inr s'"
    by (auto split: sum.splits)
  from handle_config [OF h] Cons.IH [OF r] show ?case
    by (rule same_config_trans)
qed

subsection \<open>After the constructor\<close>

lemma init_returns:
  "zoomfactor \<noteq> 0 \<Longrightarrow>
   \<exists>s0. MandelbrotGUI_init xmin xmax ymin ymax width height maxiter dpi zoomfactor = Inr s0"
  by (simp add: MandelbrotGUI_init_def)

lemma init_fields:
  assumes "MandelbrotGUI_init xmin xmax ymin ymax width height maxiter dpi zoomfactor = Inr s0"
  shows "self_xmin s0 = xmin \<and> self_xmax s0 = xmax \<and> self_ymin s0 = ymin \<and> self_ymax s0 = ymax
    \<and> self_width s0 = width \<and> self_height s0 = height \<and> self_dpi s0 = dpi
    \<and> self_zoomfactor_in s0 = zoomfactor \<and> self_zoomfactor_out s0 = 1 / zoomfactor
    \<and> self_curr_zoomlvl s0 = 0 \<and> \<not> self_processing s0
    \<and> self_currdata s0 = (xmin, ymin, xmax, ymax)
    \<and> self_cd_width s0 = \<bar>xmin - xmax\<bar> \<and> self_cd_height s0 = \<bar>ymin - ymax\<bar>
    \<and> self_started s0 = []"
  using assms by (auto simp: MandelbrotGUI_init_def setter_defs split: if_splits)

subsection \<open>The controller of Main.py\<close>

lemma main_gui_ok: "main_gui = Inr (projr main_gui)"
  by (simp add: main_gui_def MandelbrotGUI_init_def)

lemma main_gui_init:
  "MandelbrotGUI_init (-2) 0.5 (-1.25) 1.25 10 10 128 75 0.7 = Inr (projr main_gui)"
  using main_gui_ok by (simp add: main_gui_def)

lemma main_gui_fields:
  "self_currdata (projr main_gui) = (-2, -1.25, 0.5, 1.25)
   \<and> self_cd_width (projr main_gui) = 2.5 \<and> self_cd_height (projr main_gui) = 2.5
   \<and> self_zoomfactor_in (projr main_gui) = 0.7 \<and> \<not> self_processing (projr main_gui)
   \<and> self_curr_zoomlvl (projr main_gui) = 0
   \<and> self_width (projr main_gui) = 10 \<and> self_height (projr main_gui) = 10
   \<and> self_dpi (projr main_gui) = 75"
  using init_fields [OF main_gui_init] by simp

subsection \<open>Single requests\<close>

lemma scrolldown_accepted:
  "\<not> self_processing s \<Longrightarrow>
   self_curr_zoomlvl (button_mousescrolldown s e) = self_curr_zoomlvl s + 1
   \<and> self_currdata (button_mousescrolldown s e) = self_currdata (apply_zoomin s)
   \<and> self_processing (button_mousescrolldown s e)
   \<and> length (self_started (button_mousescrolldown s e)) = Suc (length (self_started s))"
  by (simp add: button_mousescrolldown_def apply_zoomin_def setter_defs Let_def)

lemma scrollup_accepted:
  "\<not> self_processing s \<Longrightarrow>
   self_curr_zoomlvl (button_mousescrollup s e) = self_curr_zoomlvl s - 1
   \<and> self_currdata (button_mousescrollup s e) = self_currdata (apply_zoomout s)
   \<and> self_processing (button_mousescrollup s e)
   \<and> length (self_started (button_mousescrollup s e)) = Suc (length (self_started s))"
  by (simp add: button_mousescrollup_def apply_zoomout_def setter_defs Let_def)

lemma mouse3_accepted:
  "\<not> self_processing s \<Longrightarrow>
   self_curr_zoomlvl (button_mouse3_released s e) = 0
   \<and> self_currdata (button_mouse3_released s e) = (self_xmin s, self_ymin s, self_xmax s, self_ymax s)
   \<and> self_processing (button_mouse3_released s e)
   \<and> length (self_started (button_mouse3_released s e)) = Suc (length (self_started s))"
  by (simp add: button_mouse3_released_def setter_defs Let_def)

lemma apply_zoomin_currdata:
  "self_currdata (apply_zoomin s) =
     (at0 (self_currdata s) + self_cd_width s / 2 - self_cd_width s / 2 * self_zoomfactor_in s,
      at1 (self_currdata s) + self_cd_height s / 2 - self_cd_height s / 2 * self_zoomfactor_in s,
      at0 (self_currdata s) + self_cd_width s / 2 + self_cd_width s / 2 * self_zoomfactor_in s,
      at1 (self_currdata s) + self_cd_height s / 2 + self_cd_height s / 2 * self_zoomfactor_in s)"
  by (simp add: apply_zoomin_def setter_defs Let_def)

lemma main_zoomin_currdata:
  "self_currdata (button_mousescrolldown (projr main_gui) e) = (-1.625, -0.875, 0.125, 0.875)"
  using scrolldown_accepted [of "projr main_gui" e] main_gui_fields
  by (simp add: apply_zoomin_currdata)

lemma dropped:
  assumes "self_processing s"
  shows "button_mouse1_released s e = Inr s" "button_mouse3_released s e = s"
    "button_mousescrollup s e = s" "button_mousescrolldown s e = s"
    "button_released s e = Inr s" "key_released s e = s"
  using assms
  by (simp_all add: button_mouse1_released_def button_mouse3_released_def
      button_mousescrollup_def button_mousescrolldown_def button_released_def key_released_def)

section \<open>Claims about the kernel\<close>

text \<open>
  C1. The kernel is seeded with \<open>z\<^sub>0 = c\<close>. When the orbit of \<open>c\<close> under \<open>z \<leftarrow> z\<^sup>2 + c\<close> first
  exceeds the horizon at iteration \<open>n\<close>, with \<open>0 \<le> n < maxiter\<close>, the kernel returns exactly
  \<open>n\<close>; when the orbit never exceeds the horizon within the \<open>maxiter\<close> iterations it returns
  \<open>0\<close>, not \<open>maxiter\<close>. In particular the origin with 50 iterations gives \<open>0\<close>, and the point
  \<open>2 + 0i\<close> with 50 iterations gives \<open>1\<close> (horizon 2 in both).
\<close>

theorem C1_escape_iterations:
  "(\<forall>n. int n < maxiter \<and> cmod (orbit c n) > horizon
        \<and> (\<forall>k<n. \<not> cmod (orbit c k) > horizon)
        \<longrightarrow> mandelbrot c maxiter horizon = int n)
   \<and> ((\<forall>k. int k < maxiter \<longrightarrow> \<not> cmod (orbit c k) > horizon)
        \<longrightarrow> mandelbrot c maxiter horizon = 0)
   \<and> orbit c 0 = c
   \<and> mandelbrot 0 50 2 = 0
   \<and> mandelbrot 2 50 2 = 1"
  using mandelbrot_escape [where maxiter = maxiter and c = c and horizon = horizon]
    mandelbrot_bounded [where maxiter = maxiter and c = c and horizon = horizon]
    mandelbrot_origin_50 mandelbrot_two_50
  by simp

theorem C1_escape_iterations_witness:
  "int 1 < 50 \<and> cmod (orbit 2 1) > 2 \<and> \<not> cmod (orbit 2 0) > 2
   \<and> mandelbrot 2 50 2 = int 1
   \<and> \<not> cmod (orbit 0 0) > 2 \<and> mandelbrot 0 1 2 = 0"
proof -
  have a: "int 1 < 50 \<and> cmod (orbit 2 1) > 2 \<and> (\<forall>k<1. \<not> cmod (orbit 2 k) > 2)"
    by simp
  have b: "\<forall>k. int k < 1 \<longrightarrow> \<not> cmod (orbit 0 k) > 2"
    by (simp add: orbit_zero)
  from a C1_escape_iterations [where maxiter = 50 and c = 2 and horizon = 2] have "mandelbrot 2 50 2 = int 1"
    by blast
  moreover from b C1_escape_iterations [where maxiter = 1 and c = 0 and horizon = 2] have "mandelbrot 0 1 2 = 0"
    by blast
  ultimately show ?thesis by simp
qed

text \<open>
  C10. For every point \<open>c\<close>, every horizon and every \<open>maxiter \<ge> 1\<close> the kernel's result lies
  in \<open>[0, maxiter - 1]\<close>, so that \<open>maxiter\<close> itself is never returned; with \<open>maxiter = 0\<close> the
  loop body never runs and the result is \<open>0\<close> for every \<open>c\<close>, also when \<open>|c|\<close> exceeds the
  horizon.
\<close>

theorem C10_kernel_range:
  "(1 \<le> maxiter \<longrightarrow>
      0 \<le> mandelbrot c maxiter horizon \<and> mandelbrot c maxiter horizon \<le> maxiter - 1
      \<and> mandelbrot c maxiter horizon \<noteq> maxiter)
   \<and> mandelbrot c 0 horizon = 0"
  using mandelbrot_range [where maxiter = maxiter and c = c and horizon = horizon]
    mandelbrot_no_iterations [where maxiter = 0 and c = c and horizon = horizon]
  by auto

theorem C10_kernel_range_witness:
  "(1::int) \<le> 50 \<and> 0 \<le> mandelbrot 2 50 2 \<and> mandelbrot 2 50 2 \<le> 50 - 1
   \<and> mandelbrot 2 50 2 \<noteq> 50 \<and> cmod 3 > 2 \<and> mandelbrot 3 0 2 = 0"
  using C10_kernel_range [where maxiter = 50 and c = 2 and horizon = 2]
    C10_kernel_range [where maxiter = 0 and c = 3 and horizon = 2] by simp

section \<open>Claims about the sampler\<close>

text \<open>
  C2 (amended). For every viewport, every \<open>W \<ge> 1\<close> and \<open>H \<ge> 1\<close>, the sampler returns a grid
  of exactly \<open>W\<close> rows of \<open>H\<close> entries, built from \<open>W\<close> x-samples and \<open>H\<close> y-samples, with
  \<open>grid[i][j]\<close> the kernel's result at \<open>complex(xAxis[i], yAxis[j])\<close>, and for \<open>maxiter \<ge> 0\<close>
  every entry lies in \<open>[0, maxiter]\<close>. With two or more samples an axis is evenly spaced
  over its interval and contains both endpoints; with exactly one sample the axis is the
  lower endpoint alone, so the upper endpoint is not sampled.
\<close>

theorem C2_sample_region:
  assumes "1 \<le> W" and "1 \<le> H"
  shows "\<exists>xAxis yAxis grid.
     linspace x0 x1 W = Inr xAxis \<and> linspace y0 y1 H = Inr yAxis
     \<and> mandelbrot_set x0 x1 y0 y1 W H maxiter = Inr grid
     \<and> length xAxis = nat W \<and> length yAxis = nat H
     \<and> length grid = nat W \<and> (\<forall>i < nat W. length (grid ! i) = nat H)
     \<and> (\<forall>i < nat W. \<forall>j < nat H.
           grid ! i ! j = real_of_int (mandelbrot (Complex (xAxis ! i) (yAxis ! j)) maxiter 2))
     \<and> (0 \<le> maxiter \<longrightarrow>
           (\<forall>i < nat W. \<forall>j < nat H. 0 \<le> grid ! i ! j \<and> grid ! i ! j \<le> real_of_int maxiter))
     \<and> (2 \<le> W \<longrightarrow>
           (\<forall>i < nat W. xAxis ! i = x0 + real i * ((x1 - x0) / real_of_int (W - 1)))
           \<and> xAxis ! 0 = x0 \<and> xAxis ! (nat W - 1) = x1)
     \<and> (2 \<le> H \<longrightarrow>
           (\<forall>j < nat H. yAxis ! j = y0 + real j * ((y1 - y0) / real_of_int (H - 1)))
           \<and> yAxis ! 0 = y0 \<and> yAxis ! (nat H - 1) = y1)
     \<and> (W = 1 \<longrightarrow> xAxis = [x0])
     \<and> (H = 1 \<longrightarrow> yAxis = [y0])"
proof -
  from assms obtain r1 where r1: "linspace x0 x1 W = Inr r1" "length r1 = nat W"
    using linspace_length [of W x0 x1] by auto
  from assms obtain r2 where r2: "linspace y0 y1 H = Inr r2" "length r2 = nat H"
    using linspace_length [of H y0 y1] by auto
  define grid where "grid = map (\<lambda>i. map (\<lambda>j. real_of_int
                  (mandelbrot (complex_of_real (r1 ! i) + \<i> * complex_of_real (r2 ! j)) maxiter 2))
                  [0..<nat H]) [0..<nat W]"
  have g: "mandelbrot_set x0 x1 y0 y1 W H maxiter = Inr grid"
    unfolding grid_def by (rule mandelbrot_set_grid [OF r1(1) r2(1)])
  have len: "length grid = nat W" "\<forall>i < nat W. length (grid ! i) = nat H"
    by (simp_all add: grid_def)
  have cell: "\<forall>i < nat W. \<forall>j < nat H.
           grid ! i ! j = real_of_int (mandelbrot (Complex (r1 ! i) (r2 ! j)) maxiter 2)"
    by (simp add: grid_def complex_parts)
  have rng: "0 \<le> maxiter \<longrightarrow>
           (\<forall>i < nat W. \<forall>j < nat H. 0 \<le> grid ! i ! j \<and> grid ! i ! j \<le> real_of_int maxiter)"
    using cell mandelbrot_cell_range [of maxiter] by simp
  have xs: "2 \<le> W \<longrightarrow>
           (\<forall>i < nat W. r1 ! i = x0 + real i * ((x1 - x0) / real_of_int (W - 1)))
           \<and> r1 ! 0 = x0 \<and> r1 ! (nat W - 1) = x1"
    using linspace_nth [OF _ r1(1)] linspace_ends [OF _ r1(1)] by blast
  have ys: "2 \<le> H \<longrightarrow>
           (\<forall>j < nat H. r2 ! j = y0 + real j * ((y1 - y0) / real_of_int (H - 1)))
           \<and> r2 ! 0 = y0 \<and> r2 ! (nat H - 1) = y1"
    using linspace_nth [OF _ r2(1)] linspace_ends [OF _ r2(1)] by blast
  have x1: "W = 1 \<longrightarrow> r1 = [x0]" using r1(1) by (auto simp: linspace_single)
  have y1: "H = 1 \<longrightarrow> r2 = [y0]" using r2(1) by (auto simp: linspace_single)
  from r1 r2 g len cell rng xs ys x1 y1 show ?thesis by blast
qed

theorem C2_sample_region_witness:
  "(1::int) \<le> 2 \<and> (1::int) \<le> 3
   \<and> (\<exists>grid. mandelbrot_set (-2) 0.5 (-1.25) 1.25 2 3 50 = Inr grid \<and> length grid = 2
        \<and> length (grid ! 1) = 3 \<and> linspace (-2) 0.5 2 = Inr [-2, 0.5])"
proof -
  have h: "(1::int) \<le> 2" "(1::int) \<le> 3" by simp_all
  from C2_sample_region [OF h, where ?x0.0 = "-2" and ?x1.0 = "0.5" and ?y0.0 = "-1.25" and ?y1.0 = "1.25" and maxiter = 50]
  obtain grid where "mandelbrot_set (-2) 0.5 (-1.25) 1.25 2 3 50 = Inr grid" "length grid = 2"
     "length (grid ! 1) = 3" by auto
  moreover have "linspace (-2) 0.5 2 = Inr [-2, 0.5]"
    by (simp add: linspace_def Let_def numeral_2_eq_2)
  ultimately show ?thesis by simp
qed

text \<open>
  The claim as stated fails at \<open>W = H = 1\<close>: the only x-sample over \<open>[0, 1]\<close> is \<open>0\<close>, the
  endpoint \<open>1\<close> is not among the samples. With a negative iteration cap the loop of the
  kernel is empty and the entry \<open>0\<close> lies above the cap, so the range needs \<open>maxiter \<ge> 0\<close>.
\<close>

theorem C2_single_sample_counterexample:
  "linspace 0 1 1 = Inr [0] \<and> (1::real) \<notin> set [0]
   \<and> mandelbrot_set 0 1 0 1 1 1 50 = Inr [ [0] ]
   \<and> mandelbrot_set 0 1 0 1 1 1 (- 1) = Inr [ [0] ] \<and> \<not> (0::real) \<le> real_of_int (- 1)"
  by (simp add: linspace_single mandelbrot_set_def mandelbrot_origin_50 mandelbrot_no_iterations)

section \<open>Claims about the controller\<close>

text \<open>
  C4 (amended). The zoom-level counter starts at 0, is incremented by one on every
  accepted zoom-in (scroll down, which applies \<open>apply_zoomin\<close>), decremented by one on
  every accepted zoom-out (scroll up, which applies \<open>apply_zoomout\<close>), and set to 0 by an
  accepted reset.
\<close>

theorem C4_zoom_level:
  "(\<forall>s0. MandelbrotGUI_init xmin xmax ymin ymax width height maxiter dpi zoomfactor = Inr s0
        \<longrightarrow> self_curr_zoomlvl s0 = 0)
   \<and> (\<not> self_processing s \<longrightarrow>
        self_curr_zoomlvl (button_mousescrolldown s e) = self_curr_zoomlvl s + 1
        \<and> self_currdata (button_mousescrolldown s e) = self_currdata (apply_zoomin s)
        \<and> self_curr_zoomlvl (button_mousescrollup s e) = self_curr_zoomlvl s - 1
        \<and> self_currdata (button_mousescrollup s e) = self_currdata (apply_zoomout s)
        \<and> self_curr_zoomlvl (button_mouse3_released s e) = 0)"
  using init_fields [of xmin xmax ymin ymax width height maxiter dpi zoomfactor]
    scrolldown_accepted [of s e] scrollup_accepted [of s e] mouse3_accepted [of s e]
  by blast

theorem C4_zoom_level_witness:
  "MandelbrotGUI_init (-2) 0.5 (-1.25) 1.25 10 10 128 75 0.7 = Inr (projr main_gui)
   \<and> self_curr_zoomlvl (projr main_gui) = 0
   \<and> \<not> self_processing (projr main_gui)
   \<and> self_curr_zoomlvl (button_mousescrolldown (projr main_gui) (scroll ''down'')) = 0 + 1
   \<and> self_curr_zoomlvl (button_mousescrollup (projr main_gui) (scroll ''up'')) = 0 - 1
   \<and> self_curr_zoomlvl (button_mouse3_released (projr main_gui) (click 3 0 0)) = 0"
proof -
  have p: "\<not> self_processing (projr main_gui)" using main_gui_fields by simp
  from C4_zoom_level [where s = "projr main_gui" and xmin = "-2" and xmax = "0.5"
      and ymin = "-1.25" and ymax = "1.25" and width = 10 and height = 10 and maxiter = 128
      and dpi = 75 and zoomfactor = "0.7"] main_gui_init p
  have z: "self_curr_zoomlvl (projr main_gui) = 0" by blast
  from C4_zoom_level [where s = "projr main_gui" and e = "scroll ''down''"] p z
  have a: "self_curr_zoomlvl (button_mousescrolldown (projr main_gui) (scroll ''down'')) = 0 + 1"
    by simp
  from C4_zoom_level [where s = "projr main_gui" and e = "scroll ''up''"] p z
  have b: "self_curr_zoomlvl (button_mousescrollup (projr main_gui) (scroll ''up'')) = 0 - 1"
    by simp
  from C4_zoom_level [where s = "projr main_gui" and e = "click 3 0 0"] p
  have c: "self_curr_zoomlvl (button_mouse3_released (projr main_gui) (click 3 0 0)) = 0"
    by simp
  from main_gui_init p z a b c show ?thesis by blast
qed

text \<open>
  The claim as stated fails on the controller of Main.py: an accepted zoom-in raises the
  level from 0 to 1 (the claim says it is decremented), an accepted zoom-out lowers it
  from 0 to -1 (the claim says it is incremented).
\<close>

theorem C4_zoom_direction_counterexample:
  "\<not> self_processing (projr main_gui) \<and> self_curr_zoomlvl (projr main_gui) = 0
   \<and> self_currdata (button_mousescrolldown (projr main_gui) (scroll ''down''))
       = self_currdata (apply_zoomin (projr main_gui))
   \<and> self_curr_zoomlvl (button_mousescrolldown (projr main_gui) (scroll ''down'')) = 1
   \<and> self_curr_zoomlvl (button_mousescrolldown (projr main_gui) (scroll ''down'')) \<noteq> 0 - 1
   \<and> self_currdata (button_mousescrollup (projr main_gui) (scroll ''up''))
       = self_currdata (apply_zoomout (projr main_gui))
   \<and> self_curr_zoomlvl (button_mousescrollup (projr main_gui) (scroll ''up'')) = - 1
   \<and> self_curr_zoomlvl (button_mousescrollup (projr main_gui) (scroll ''up'')) \<noteq> 0 + 1"
  using main_gui_fields scrolldown_accepted [of "projr main_gui" "scroll ''down''"]
    scrollup_accepted [of "projr main_gui" "scroll ''up''"]
  by simp

text \<open>
  C5. A navigation request that arrives while \<open>processing\<close> is true leaves the controller
  as it is: each of the four handlers, and the two dispatchers that call them, returns
  the very state it was given, so the viewport, the zoom level, the flag and the list of
  started workers are unchanged.
\<close>

theorem C5_dropped_while_processing:
  assumes "self_processing s"
  shows "button_mouse1_released s e = Inr s \<and> button_mouse3_released s e = s
     \<and> button_mousescrollup s e = s \<and> button_mousescrolldown s e = s
     \<and> handle s (ButtonReleaseEvent e) = Inr s \<and> handle s (ScrollEvent e) = Inr s
     \<and> handle s (KeyReleaseEvent e) = Inr s"
  using dropped [OF assms, of e] by simp

theorem C5_dropped_while_processing_witness:
  "self_processing (button_mousescrolldown (projr main_gui) (scroll ''down''))
   \<and> button_mouse1_released (button_mousescrolldown (projr main_gui) (scroll ''down''))
        (click 1 100 200) = Inr (button_mousescrolldown (projr main_gui) (scroll ''down''))
   \<and> handle (button_mousescrolldown (projr main_gui) (scroll ''down''))
        (ScrollEvent (scroll ''up'')) = Inr (button_mousescrolldown (projr main_gui) (scroll ''down''))"
proof -
  have p: "self_processing (button_mousescrolldown (projr main_gui) (scroll ''down''))"
    using main_gui_fields scrolldown_accepted [of "projr main_gui" "scroll ''down''"] by simp
  from C5_dropped_while_processing [OF p, of "click 1 100 200"]
    C5_dropped_while_processing [OF p, of "scroll ''up''"] p
  show ?thesis by simp
qed

text \<open>
  C9. Whatever run of requests and completions came before, an accepted reset (right
  button) sets the current viewport to the bounds the constructor was given and the zoom
  level to 0.
\<close>

theorem C9_reset_view:
  assumes "MandelbrotGUI_init xmin xmax ymin ymax width height maxiter dpi zoomfactor = Inr s0"
    and "run s0 evs = Inr s" and "\<not> self_processing s"
  shows "self_currdata (button_mouse3_released s e) = (xmin, ymin, xmax, ymax)
     \<and> self_curr_zoomlvl (button_mouse3_released s e) = 0
     \<and> (event_button e = IntButton 3 \<longrightarrow>
          handle s (ButtonReleaseEvent e) = Inr (button_mouse3_released s e))"
proof -
  from run_config [OF assms(2)] init_fields [OF assms(1)]
  have "self_xmin s = xmin" "self_ymin s = ymin" "self_xmax s = xmax" "self_ymax s = ymax"
    by (simp_all add: same_config_def)
  with mouse3_accepted [OF assms(3), of e] show ?thesis
    by (simp add: button_released_def)
qed

theorem C9_reset_view_witness:
  "MandelbrotGUI_init (-2) 0.5 (-1.25) 1.25 10 10 128 75 0.7 = Inr (projr main_gui)
   \<and> run (projr main_gui) [ScrollEvent (scroll ''down''), WorkerDone [] 0 1]
       = Inr (calc_mandelbrot_callback
                (button_mousescrolldown (projr main_gui) (scroll ''down'')) [] 0 1)
   \<and> \<not> self_processing (calc_mandelbrot_callback
                (button_mousescrolldown (projr main_gui) (scroll ''down'')) [] 0 1)
   \<and> self_currdata (calc_mandelbrot_callback
                (button_mousescrolldown (projr main_gui) (scroll ''down'')) [] 0 1)
       = (-1.625, -0.875, 0.125, 0.875)
   \<and> event_button (click 3 0 0) = IntButton 3
   \<and> self_currdata (button_mouse3_released (calc_mandelbrot_callback
                (button_mousescrolldown (projr main_gui) (scroll ''down'')) [] 0 1) (click 3 0 0))
       = (-2, -1.25, 0.5, 1.25)
   \<and> self_curr_zoomlvl (button_mouse3_released (calc_mandelbrot_callback
                (button_mousescrolldown (projr main_gui) (scroll ''down'')) [] 0 1) (click 3 0 0))
       = 0
   \<and> handle (calc_mandelbrot_callback
                (button_mousescrolldown (projr main_gui) (scroll ''down'')) [] 0 1)
        (ButtonReleaseEvent (click 3 0 0))
       = Inr (button_mouse3_released (calc_mandelbrot_callback
                (button_mousescrolldown (projr main_gui) (scroll ''down'')) [] 0 1) (click 3 0 0))"
proof -
  let ?z = "calc_mandelbrot_callback
                (button_mousescrolldown (projr main_gui) (scroll ''down'')) [] 0 1"
  have r: "run (projr main_gui) [ScrollEvent (scroll ''down''), WorkerDone [] 0 1] = Inr ?z"
    by (simp add: button_released_def scroll_def)
  have p: "\<not> self_processing ?z" by (simp add: calc_mandelbrot_callback_def)
  have d: "self_currdata ?z = (-1.625, -0.875, 0.125, 0.875)"
    using main_zoomin_currdata [of "scroll ''down''"] by (simp add: calc_mandelbrot_callback_def)
  have b: "event_button (click 3 0 0) = IntButton 3" by (simp add: click_def)
  from C9_reset_view [OF main_gui_init r p, of "click 3 0 0"] r p d b main_gui_init
  show ?thesis by simp
qed

end
